theory Spec2Isabelle
  imports Main "HOL-Library.Multiset"
begin

section \<open>The Counter collection and the sequence allocator\<close>

text \<open>
  Every variant of the server (\<^verbatim>\<open>server.js\<close> and the three unnamed parts) declares the
  same Mongoose model \<^verbatim>\<open>Counter\<close>: a document has a string \<^verbatim>\<open>_id\<close> (the counter's name)
  and a number \<^verbatim>\<open>sequence_value\<close>. The collection is a map from names to values; a name
  outside the domain has no document.

  The store keeps \<^verbatim>\<open>sequence_value\<close> as an integer: the increment 1 is sent as an integer,
  and \<^verbatim>\<open>$inc\<close> adds it exactly. The stored values are therefore \<open>int\<close>.
\<close>

type_synonym counters = "string \<rightharpoonup> int"

text \<open>
  What the code receives is a JavaScript Number, a double: the \<^verbatim>\<open>sequence_value\<close> of the
  document handed to \<^verbatim>\<open>getNextSequenceValue\<close> is the double nearest to the stored integer
  (round to nearest, ties to the even significand). A double has a significand of 53 bits:
  every integer of magnitude up to \<open>2 ^ 53\<close> is a double, and above that only the multiples
  of the unit in the last place are. \<open>ulp a\<close> is that unit for a magnitude \<open>a\<close>, and
  \<open>toNumber n\<close> the value of the double nearest to the integer \<open>n\<close>. (The largest double,
  near \<open>2 ^ 1024\<close>, is far beyond the integers of the store and is not modelled.)
\<close>

function ulp :: "int \<Rightarrow> int" where
  "ulp a = (if a < 2 ^ 53 then 1 else 2 * ulp (a div 2))"
  by pat_completeness auto
termination
  by (relation "measure nat") auto

definition toNumber :: "int \<Rightarrow> int" where
  "toNumber n =
     (let a = \<bar>n\<bar>; u = ulp a; q = a div u; r = a mod u;
          m = (if u < 2 * r \<or> (2 * r = u \<and> odd q) then q + 1 else q)
      in sgn n * (m * u))"

text \<open>The stored value of a counter, an absent document counting as 0.\<close>

definition counterValue :: "counters \<Rightarrow> string \<Rightarrow> int" where
  "counterValue cs name = (case cs name of None \<Rightarrow> 0 | Some v \<Rightarrow> v)"

text \<open>
  \<^verbatim>\<open>Counter.findOneAndUpdate({ _id: sequenceName }, { $inc: { sequence_value: 1 } },
  { new: true, upsert: true })\<close>, as the Document Store performs it: one atomic step on
  the document named by the filter. An existing document has its value incremented; with
  \<^verbatim>\<open>upsert\<close> a missing one is inserted by the same step, and \<^verbatim>\<open>$inc\<close> on the missing
  field sets it to the increment. With \<^verbatim>\<open>new: true\<close> the answer is the document after
  the update. The result is the \<^verbatim>\<open>sequence_value\<close> of the returned document, as the
  JavaScript Number the code receives, and the updated collection.
\<close>

definition findOneAndUpdate_inc :: "string \<Rightarrow> counters \<Rightarrow> int \<times> counters" where
  "findOneAndUpdate_inc name cs =
     (case cs name of
        None \<Rightarrow> (toNumber 1, cs(name \<mapsto> 1))
      | Some v \<Rightarrow> (toNumber (v + 1), cs(name \<mapsto> v + 1)))"

text \<open>
  \<^verbatim>\<open>getNextSequenceValue\<close> awaits that update and returns the \<^verbatim>\<open>sequence_value\<close> of the
  document it got. This is the call as it runs when the store performs the update; when
  the store rejects it, the promise rejects, nothing has been written, and the request
  handler's \<^verbatim>\<open>catch\<close> takes over (see \<open>postBlogs\<close> below).
\<close>

definition getNextSequenceValue :: "string \<Rightarrow> counters \<Rightarrow> int \<times> counters" where
  "getNextSequenceValue sequenceName cs =
     (let (sequence_value, cs') = findOneAndUpdate_inc sequenceName cs
      in (sequence_value, cs'))"

text \<open>\<open>n\<close> calls for the same name, one after the other; the values in the order returned.\<close>

fun nextValues :: "nat \<Rightarrow> string \<Rightarrow> counters \<Rightarrow> int list \<times> counters" where
  "nextValues 0 name cs = ([], cs)"
| "nextValues (Suc n) name cs =
     (let (v, cs1) = getNextSequenceValue name cs;
          (vs, cs2) = nextValues n name cs1
      in (v # vs, cs2))"

section \<open>Concurrent callers of the allocator\<close>

text \<open>
  Requests are handled concurrently, on one event loop or by several instances of the
  server against one store. The only access of \<^verbatim>\<open>getNextSequenceValue\<close> to the store is
  its one \<^verbatim>\<open>findOneAndUpdate\<close>, which the Document Store performs as one atomic step (its
  contract for an update of a single document); the caller resumes later, when the promise
  resolves with the value. Between the two steps of one call any steps of other calls may
  run. A call is therefore in one of three states: \<open>Pending\<close> (the update has not been
  performed), \<open>Answered v\<close> (the store has performed the update of this call of
  \<open>getNextSequenceValue\<close>, whose value \<open>v\<close> is on its way to the caller) and
  \<open>Returned v\<close> (the caller has the value).
\<close>

datatype call = Pending | Answered int | Returned int

text \<open>One step of caller \<open>c\<close>'s call for the counter \<open>x\<close>; a call that has returned does nothing.\<close>

definition stepCall ::
  "string \<Rightarrow> 'c \<Rightarrow> counters \<times> ('c \<Rightarrow> call) \<Rightarrow> counters \<times> ('c \<Rightarrow> call)" where
  "stepCall x c cfg =
     (case snd cfg c of
        Pending \<Rightarrow>
          (let (sequence_value, cs') = getNextSequenceValue x (fst cfg)
           in (cs', (snd cfg)(c := Answered sequence_value)))
      | Answered v \<Rightarrow> (fst cfg, (snd cfg)(c := Returned v))
      | Returned v \<Rightarrow> cfg)"








section \<open>Documents and the two stores\<close>

text \<open>
  Every Mongoose document has an \<^verbatim>\<open>_id\<close>, an ObjectId the driver generates when the
  document is constructed; the model keeps it as a number (\<open>oid\<close>). The fields follow the
  schemas of the source. A field whose schema type is \<^verbatim>\<open>String\<close> and which the handler
  fills from \<^verbatim>\<open>req.body\<close> is optional (\<open>None\<close> is JavaScript's \<^verbatim>\<open>undefined\<close>); a
  \<^verbatim>\<open>Date\<close> is its time value in milliseconds, \<open>None\<close> being JavaScript's Invalid Date.
\<close>

record document =
  oid :: nat

text \<open>\<^verbatim>\<open>blogSchema\<close>; \<^verbatim>\<open>blog_id\<close> has a unique index.\<close>

record blog = document +
  blog_id :: int
  blog_title :: "string option"
  blog_description :: "string option"
  blog_image :: string

text \<open>\<^verbatim>\<open>ImageSchema\<close> of the carousel (\<^verbatim>\<open>CarouselImageSchema\<close> in \<^verbatim>\<open>part_000\<close>).\<close>

record carouselImage = document +
  imageUrl :: string
  link :: "string option"

text \<open>\<^verbatim>\<open>eventSchema\<close> of server.js: both fields are required.\<close>

record event = document +
  event_date :: "int option"
  event_image :: string

text \<open>
  The event images of \<^verbatim>\<open>/api/upload\<close>: \<^verbatim>\<open>ImageSchema\<close> of \<^verbatim>\<open>part_001\<close> (both fields required;
  its \<^verbatim>\<open>timestamps\<close> option adds two clock values, which are left out) and
  \<^verbatim>\<open>EventImageSchema\<close> of \<^verbatim>\<open>part_002\<close> (no field required).
\<close>

record eventImage = document +
  eventImageUrl :: string
  date :: "int option"

text \<open>\<^verbatim>\<open>SongSchema\<close>, \<^verbatim>\<open>AlbumSchema\<close> and \<^verbatim>\<open>FeatureSchema\<close> of \<^verbatim>\<open>part_000\<close>: the same four required strings.\<close>

record song = document +
  song_image :: string
  title :: "string option"
  purchaseLink :: "string option"
  streamLink :: "string option"

text \<open>
  The state the handlers act on: the collections of the Document Store, each in insertion
  order, and the assets the Blob Store holds, each with the folder it was uploaded to and
  its URL. The variants of the server use different subsets of the collections.
\<close>

record world =
  counters :: counters
  blogs :: "blog list"
  carousel :: "carouselImage list"
  events :: "event list"
  eventImages :: "eventImage list"
  songs :: "song list"
  albums :: "song list"
  features :: "song list"
  blobs :: "(string \<times> string) list"

definition emptyWorld :: world where
  "emptyWorld = \<lparr>counters = Map.empty, blogs = [], carousel = [], events = [],
     eventImages = [], songs = [], albums = [], features = [], blobs = []\<rparr>"

text \<open>
  A multipart request as multer hands it to the handler: the file part under the field
  name the route expects (its bytes; \<open>None\<close> when the request has none) and the text
  fields of \<^verbatim>\<open>req.body\<close>, which are strings. A request that multer itself refuses (a
  file part under another field name) never reaches a handler and is not a request of
  this model.
\<close>

record request =
  req_file :: "string option"
  req_body :: "string \<rightharpoonup> string"

text \<open>
  What the collaborators do during one request and the handler cannot decide: the answer
  of the Blob Store to an upload (the asset's \<^verbatim>\<open>secure_url\<close>, or \<open>None\<close> for an error),
  whether the Document Store performs the counter update, an insert and a query (it may be
  unreachable, or refuse the operation), and the ObjectId the driver generates for a new
  document.
\<close>

record env =
  cloud :: "string option"
  counter_up :: bool
  save_up :: bool
  find_up :: bool
  fresh_id :: nat

text \<open>
  Library functions the handlers rely on and the repository does not contain; the model
  takes them as parameters, and every theorem holds for all of them.
  \<^item> \<open>castNumber\<close>: Mongoose's cast of a query value to the schema type \<^verbatim>\<open>Number\<close>, applied
    to the route parameter (a non-empty string): JavaScript's \<^verbatim>\<open>Number(s)\<close>, where NaN
    fails the cast. A number that is not an integer (a fraction, an infinity) is
    \<open>NonInteger\<close>: it equals no value a counter has handed out.
  \<^item> \<open>newDate\<close>: JavaScript's \<^verbatim>\<open>new Date(s)\<close>.
  \<^item> \<open>castObjectId\<close>: Mongoose's cast of a string to an ObjectId.
\<close>

datatype cast_number = NotANumber | Integer int | NonInteger

record runtime =
  castNumber :: "string \<Rightarrow> cast_number"
  newDate :: "string \<Rightarrow> int option"
  castObjectId :: "string \<Rightarrow> nat option"

text \<open>
  The worked examples need the runtime at three strings only. This one gives JavaScript's
  answers there (\<^verbatim>\<open>Number("7")\<close> is 7, \<^verbatim>\<open>Number("abc")\<close> is NaN,
  \<^verbatim>\<open>new Date("2025-01-01")\<close> is 1735689600000) and is used at no other string.
\<close>

definition exampleRuntime :: runtime where
  "exampleRuntime =
     \<lparr>castNumber = (\<lambda>s. if s = ''7'' then Integer 7 else NotANumber),
      newDate = (\<lambda>s. if s = ''2025-01-01'' then Some 1735689600000 else None),
      castObjectId = (\<lambda>s. None)\<rparr>"

section \<open>Responses\<close>

datatype doc =
    BlogDoc blog
  | ImageDoc carouselImage
  | EventDoc event
  | EventImageDoc eventImage
  | SongDoc song

text \<open>
  The bodies the handlers send, by shape: \<^verbatim>\<open>{message: m}\<close>, \<^verbatim>\<open>{message: m, error}\<close>,
  \<^verbatim>\<open>{error: m}\<close>, \<^verbatim>\<open>{error: m, details}\<close>, a document, an array of documents,
  \<^verbatim>\<open>{message: m, song: document}\<close>, a text, and the page of Express's default error
  handler (not JSON).
\<close>

datatype body =
    Message string
  | MessageError string
  | ErrorMsg string
  | ErrorDetails string
  | Doc doc
  | Docs "doc list"
  | MessageSong string doc
  | Text string
  | ErrorPage

text \<open>
  A request ends with a response written by the handler or by Express, or with the
  handler's promise rejected and no response written by it (\<open>Unhandled\<close>).
\<close>

datatype response = Response nat body | Unhandled

section \<open>Store operations\<close>

text \<open>JavaScript's \<^verbatim>\<open>!v\<close> for a text field: true for \<^verbatim>\<open>undefined\<close> and for the empty string.\<close>

definition falsy :: "string option \<Rightarrow> bool" where
  "falsy v = (v = None \<or> v = Some [])"

text \<open>Mongoose's \<^verbatim>\<open>required: true\<close> on a String path: the value is a non-empty string.\<close>

definition required :: "string option \<Rightarrow> bool" where
  "required v = (v \<noteq> None \<and> v \<noteq> Some [])"

text \<open>
  \<^verbatim>\<open>cloudinary.uploader.upload_stream({ folder }, callback)\<close> with the file piped into it:
  the Blob Store stores the asset and the callback gets its \<^verbatim>\<open>secure_url\<close>, or stores
  nothing and the callback gets an error (\<open>None\<close>).
\<close>

definition upload_stream :: "env \<Rightarrow> string \<Rightarrow> world \<Rightarrow> (string \<times> world) option" where
  "upload_stream e folder w =
     (case cloud e of
        None \<Rightarrow> None
      | Some secure_url \<Rightarrow> Some (secure_url, w\<lparr>blobs := blobs w @ [(folder, secure_url)]\<rparr>))"

text \<open>
  \<^verbatim>\<open>multer({ storage: new CloudinaryStorage({ cloudinary, params: { folder, \<dots> } }) }).single(field)\<close>:
  the middleware runs before the handler. When the request has the file part it uploads
  the file; on success \<^verbatim>\<open>req.file.path\<close> is the asset's URL, on an error it calls
  \<^verbatim>\<open>next(err)\<close> and the handler never runs (\<open>None\<close>). When the request has no file part,
  \<^verbatim>\<open>req.file\<close> stays \<^verbatim>\<open>undefined\<close> and nothing is uploaded.
\<close>

definition cloudinarySingle ::
  "env \<Rightarrow> string \<Rightarrow> request \<Rightarrow> world \<Rightarrow> (string option \<times> world) option" where
  "cloudinarySingle e folder r w =
     (case req_file r of
        None \<Rightarrow> Some (None, w)
      | Some buffer \<Rightarrow>
          (case upload_stream e folder w of
             None \<Rightarrow> None
           | Some (path, w') \<Rightarrow> Some (Some path, w')))"

text \<open>
  \<^verbatim>\<open>document.save()\<close>, per collection: \<open>None\<close> when the promise rejects. The store may
  refuse any insert (\<open>save_up\<close>); Mongoose rejects a document that fails its schema's
  validation (a required field missing or empty, an Invalid Date); the store rejects a blog
  whose \<^verbatim>\<open>blog_id\<close> is already taken (the unique index).
\<close>

definition saveBlog :: "env \<Rightarrow> blog \<Rightarrow> world \<Rightarrow> world option" where
  "saveBlog e b w =
     (if save_up e \<and> blog_id b \<notin> blog_id ` set (blogs w)
      then Some (w\<lparr>blogs := blogs w @ [b]\<rparr>) else None)"

definition saveCarouselImage :: "env \<Rightarrow> carouselImage \<Rightarrow> world \<Rightarrow> world option" where
  "saveCarouselImage e i w =
     (if save_up e then Some (w\<lparr>carousel := carousel w @ [i]\<rparr>) else None)"

definition saveEvent :: "env \<Rightarrow> event \<Rightarrow> world \<Rightarrow> world option" where
  "saveEvent e ev w =
     (if save_up e \<and> event_date ev \<noteq> None \<and> event_image ev \<noteq> []
      then Some (w\<lparr>events := events w @ [ev]\<rparr>) else None)"

text \<open>\<^verbatim>\<open>Image\<close> of \<^verbatim>\<open>part_001\<close> requires both fields; \<^verbatim>\<open>EventImageModel\<close> of \<^verbatim>\<open>part_002\<close> none.\<close>

definition saveImage_001 :: "env \<Rightarrow> eventImage \<Rightarrow> world \<Rightarrow> world option" where
  "saveImage_001 e i w =
     (if save_up e \<and> eventImageUrl i \<noteq> [] \<and> date i \<noteq> None
      then Some (w\<lparr>eventImages := eventImages w @ [i]\<rparr>) else None)"

definition saveEventImage :: "env \<Rightarrow> eventImage \<Rightarrow> world \<Rightarrow> world option" where
  "saveEventImage e i w =
     (if save_up e \<and> date i \<noteq> None
      then Some (w\<lparr>eventImages := eventImages w @ [i]\<rparr>) else None)"

definition validSong :: "song \<Rightarrow> bool" where
  "validSong s =
     (song_image s \<noteq> [] \<and> required (title s) \<and> required (purchaseLink s)
      \<and> required (streamLink s))"

definition saveSong :: "env \<Rightarrow> song \<Rightarrow> world \<Rightarrow> world option" where
  "saveSong e s w =
     (if save_up e \<and> validSong s then Some (w\<lparr>songs := songs w @ [s]\<rparr>) else None)"

definition saveAlbum :: "env \<Rightarrow> song \<Rightarrow> world \<Rightarrow> world option" where
  "saveAlbum e s w =
     (if save_up e \<and> validSong s then Some (w\<lparr>albums := albums w @ [s]\<rparr>) else None)"

definition saveFeature :: "env \<Rightarrow> song \<Rightarrow> world \<Rightarrow> world option" where
  "saveFeature e s w =
     (if save_up e \<and> validSong s then Some (w\<lparr>features := features w @ [s]\<rparr>) else None)"

section \<open>The POST handlers\<close>

text \<open>
  A handler maps the collaborators' behaviour, the request and the world to the response
  and the world after it. Where a route uses the Cloudinary storage engine the middleware
  comes first; its error goes to Express's default error handler, which answers 500.
\<close>

subsection \<open>\<^verbatim>\<open>POST /api/carousel\<close>\<close>

text \<open>
  server.js, lines 41--66. The file is kept in memory; the handler streams it to the Blob
  Store and answers from the callback. The callback awaits \<^verbatim>\<open>image.save()\<close> outside any
  \<^verbatim>\<open>try\<close>: a rejected save leaves the request unanswered. \<^verbatim>\<open>res.json(image)\<close> sets no
  status, so the answer has status 200.
\<close>

definition postCarousel :: "env \<Rightarrow> request \<Rightarrow> world \<Rightarrow> response \<times> world" where
  "postCarousel e r w =
     (case req_file r of
        None \<Rightarrow> (Response 400 (Message ''No file uploaded''), w)
      | Some buffer \<Rightarrow>
          (case upload_stream e ''carousel'' w of
             None \<Rightarrow> (Response 500 (Message ''Upload failed''), w)
           | Some (secure_url, w1) \<Rightarrow>
               (let img = \<lparr>oid = fresh_id e, imageUrl = secure_url,
                              link = req_body r ''link''\<rparr>
                in case saveCarouselImage e img w1 of
                     None \<Rightarrow> (Unhandled, w1)
                   | Some w2 \<Rightarrow> (Response 200 (Doc (ImageDoc img)), w2))))"

text \<open>\<^verbatim>\<open>part_000\<close>, lines 44--70: the same, the upload error adds the error object to the body.\<close>

definition postCarousel_000 :: "env \<Rightarrow> request \<Rightarrow> world \<Rightarrow> response \<times> world" where
  "postCarousel_000 e r w =
     (case req_file r of
        None \<Rightarrow> (Response 400 (Message ''No file uploaded''), w)
      | Some buffer \<Rightarrow>
          (case upload_stream e ''carousel'' w of
             None \<Rightarrow> (Response 500 (MessageError ''Upload failed''), w)
           | Some (secure_url, w1) \<Rightarrow>
               (let img = \<lparr>oid = fresh_id e, imageUrl = secure_url,
                              link = req_body r ''link''\<rparr>
                in case saveCarouselImage e img w1 of
                     None \<Rightarrow> (Unhandled, w1)
                   | Some w2 \<Rightarrow> (Response 200 (Doc (ImageDoc img)), w2))))"

text \<open>\<^verbatim>\<open>part_002\<close>, lines 45--74 and 268--297: the link is checked after the file.\<close>

definition postCarousel_002 :: "env \<Rightarrow> request \<Rightarrow> world \<Rightarrow> response \<times> world" where
  "postCarousel_002 e r w =
     (case req_file r of
        None \<Rightarrow> (Response 400 (Message ''No file uploaded''), w)
      | Some buffer \<Rightarrow>
          if falsy (req_body r ''link'') then (Response 400 (Message ''No link provided''), w)
          else
            (case upload_stream e ''carousel'' w of
               None \<Rightarrow> (Response 500 (Message ''Upload failed''), w)
             | Some (secure_url, w1) \<Rightarrow>
                 (let img = \<lparr>oid = fresh_id e, imageUrl = secure_url,
                                link = req_body r ''link''\<rparr>
                  in case saveCarouselImage e img w1 of
                       None \<Rightarrow> (Unhandled, w1)
                     | Some w2 \<Rightarrow> (Response 200 (Doc (ImageDoc img)), w2))))"

subsection \<open>\<^verbatim>\<open>POST /api/blogs\<close>\<close>

text \<open>
  server.js, lines 117--137 (the same in \<^verbatim>\<open>part_002\<close>, lines 174--194). The storage engine
  has uploaded the file before the handler runs. The handler checks the file, allocates
  the \<^verbatim>\<open>blog_id\<close>, saves the blog and answers 201; a rejected counter update or save is
  caught and answered 500. The counter is updated before the save and nothing undoes it.
\<close>

definition postBlogs :: "env \<Rightarrow> request \<Rightarrow> world \<Rightarrow> response \<times> world" where
  "postBlogs e r w =
     (case cloudinarySingle e ''uploads'' r w of
        None \<Rightarrow> (Response 500 ErrorPage, w)
      | Some (file, w1) \<Rightarrow>
          (case file of
             None \<Rightarrow> (Response 400 (Message ''No image uploaded''), w1)
           | Some path \<Rightarrow>
               if \<not> counter_up e then (Response 500 (ErrorMsg ''Error uploading blog''), w1)
               else
                 (let (next_id, cs) = getNextSequenceValue ''blog_id'' (counters w1);
                      w2 = w1\<lparr>counters := cs\<rparr>;
                      blog = \<lparr>oid = fresh_id e, blog_id = next_id,
                               blog_title = req_body r ''blog_title'',
                               blog_description = req_body r ''blog_description'',
                               blog_image = path\<rparr>
                  in case saveBlog e blog w2 of
                       None \<Rightarrow> (Response 500 (ErrorMsg ''Error uploading blog''), w2)
                     | Some w3 \<Rightarrow> (Response 201 (Doc (BlogDoc blog)), w3))))"

text \<open>\<^verbatim>\<open>part_000\<close>, lines 121--146: the same, the caught error is added to the body.\<close>

definition postBlogs_000 :: "env \<Rightarrow> request \<Rightarrow> world \<Rightarrow> response \<times> world" where
  "postBlogs_000 e r w =
     (case cloudinarySingle e ''uploads'' r w of
        None \<Rightarrow> (Response 500 ErrorPage, w)
      | Some (file, w1) \<Rightarrow>
          (case file of
             None \<Rightarrow> (Response 400 (Message ''No image uploaded''), w1)
           | Some path \<Rightarrow>
               if \<not> counter_up e then (Response 500 (ErrorDetails ''Error uploading blog''), w1)
               else
                 (let (next_id, cs) = getNextSequenceValue ''blog_id'' (counters w1);
                      w2 = w1\<lparr>counters := cs\<rparr>;
                      blog = \<lparr>oid = fresh_id e, blog_id = next_id,
                               blog_title = req_body r ''blog_title'',
                               blog_description = req_body r ''blog_description'',
                               blog_image = path\<rparr>
                  in case saveBlog e blog w2 of
                       None \<Rightarrow> (Response 500 (ErrorDetails ''Error uploading blog''), w2)
                     | Some w3 \<Rightarrow> (Response 201 (Doc (BlogDoc blog)), w3))))"

text \<open>
  \<^verbatim>\<open>part_001\<close>, lines 111--127: no \<^verbatim>\<open>try\<close> and no check of the file. Without a file
  \<^verbatim>\<open>req.file.path\<close> throws a TypeError; that and every rejected store operation reject
  the handler's promise.
\<close>

definition postBlogs_001 :: "env \<Rightarrow> request \<Rightarrow> world \<Rightarrow> response \<times> world" where
  "postBlogs_001 e r w =
     (case cloudinarySingle e ''uploads'' r w of
        None \<Rightarrow> (Response 500 ErrorPage, w)
      | Some (file, w1) \<Rightarrow>
          (case file of
             None \<Rightarrow> (Unhandled, w1)
           | Some path \<Rightarrow>
               if \<not> counter_up e then (Unhandled, w1)
               else
                 (let (next_id, cs) = getNextSequenceValue ''blog_id'' (counters w1);
                      w2 = w1\<lparr>counters := cs\<rparr>;
                      blog = \<lparr>oid = fresh_id e, blog_id = next_id,
                               blog_title = req_body r ''blog_title'',
                               blog_description = req_body r ''blog_description'',
                               blog_image = path\<rparr>
                  in case saveBlog e blog w2 of
                       None \<Rightarrow> (Unhandled, w2)
                     | Some w3 \<Rightarrow> (Response 201 (Doc (BlogDoc blog)), w3))))"

subsection \<open>Events\<close>

text \<open>
  \<^verbatim>\<open>POST /api/events\<close>, server.js, lines 174--196: the date is checked before the file,
  both after the storage engine has run.
\<close>

definition postEvents :: "runtime \<Rightarrow> env \<Rightarrow> request \<Rightarrow> world \<Rightarrow> response \<times> world" where
  "postEvents L e r w =
     (case cloudinarySingle e ''uploads'' r w of
        None \<Rightarrow> (Response 500 ErrorPage, w)
      | Some (file, w1) \<Rightarrow>
          (case req_body r ''event_date'' of
             None \<Rightarrow> (Response 400 (Message ''Event date is required''), w1)
           | Some d \<Rightarrow>
               if d = [] then (Response 400 (Message ''Event date is required''), w1)
               else
                 (case file of
                    None \<Rightarrow> (Response 400 (Message ''Event image is required''), w1)
                  | Some path \<Rightarrow>
                      (let event = \<lparr>oid = fresh_id e, event_date = newDate L d,
                                     event_image = path\<rparr>
                       in case saveEvent e event w1 of
                            None \<Rightarrow> (Response 500 (ErrorMsg ''Error uploading event''), w1)
                          | Some w2 \<Rightarrow> (Response 201 (Doc (EventDoc event)), w2)))))"

text \<open>
  \<^verbatim>\<open>POST /api/upload\<close>, \<^verbatim>\<open>part_001\<close>, lines 83--98: the storage engine uploads; the handler
  checks the date only, and \<^verbatim>\<open>req.file.path\<close> without a file throws inside the \<^verbatim>\<open>try\<close>.
\<close>

definition postUpload_001 :: "runtime \<Rightarrow> env \<Rightarrow> request \<Rightarrow> world \<Rightarrow> response \<times> world" where
  "postUpload_001 L e r w =
     (case cloudinarySingle e ''uploads'' r w of
        None \<Rightarrow> (Response 500 ErrorPage, w)
      | Some (file, w1) \<Rightarrow>
          (case req_body r ''date'' of
             None \<Rightarrow> (Response 400 (ErrorMsg ''Date is required''), w1)
           | Some d \<Rightarrow>
               if d = [] then (Response 400 (ErrorMsg ''Date is required''), w1)
               else
                 (case file of
                    None \<Rightarrow> (Response 500 (ErrorMsg ''Error uploading image''), w1)
                  | Some path \<Rightarrow>
                      (let newImage = \<lparr>oid = fresh_id e, eventImageUrl = path,
                                        date = newDate L d\<rparr>
                       in case saveImage_001 e newImage w1 of
                            None \<Rightarrow> (Response 500 (ErrorMsg ''Error uploading image''), w1)
                          | Some w2 \<Rightarrow> (Response 201 (Doc (EventImageDoc newImage)), w2)))))"

text \<open>
  \<^verbatim>\<open>POST /api/upload\<close>, \<^verbatim>\<open>part_002\<close>, lines 133--161: the file is kept in memory and
  streamed by the handler after both checks; the save in the callback is outside any
  \<^verbatim>\<open>try\<close>.
\<close>

definition postUpload_002 :: "runtime \<Rightarrow> env \<Rightarrow> request \<Rightarrow> world \<Rightarrow> response \<times> world" where
  "postUpload_002 L e r w =
     (case req_file r of
        None \<Rightarrow> (Response 400 (Message ''No file uploaded''), w)
      | Some buffer \<Rightarrow>
          (case req_body r ''date'' of
             None \<Rightarrow> (Response 400 (Message ''Date is required''), w)
           | Some d \<Rightarrow>
               if d = [] then (Response 400 (Message ''Date is required''), w)
               else
                 (case upload_stream e ''events'' w of
                    None \<Rightarrow> (Response 500 (Message ''Upload failed''), w)
                  | Some (secure_url, w1) \<Rightarrow>
                      (let newImage = \<lparr>oid = fresh_id e, eventImageUrl = secure_url,
                                        date = newDate L d\<rparr>
                       in case saveEventImage e newImage w1 of
                            None \<Rightarrow> (Unhandled, w1)
                          | Some w2 \<Rightarrow> (Response 201 (Doc (EventImageDoc newImage)), w2)))))"

subsection \<open>Songs, albums and features (\<^verbatim>\<open>part_000\<close>)\<close>

text \<open>
  Lines 193--211, 245--263 and 297--315: three copies of one handler. Only the file is
  checked; a missing text field fails the schema's validation in \<^verbatim>\<open>save()\<close>, which is
  caught. The body of a success wraps the document: \<^verbatim>\<open>{ message, song }\<close>.
\<close>

definition newSong :: "env \<Rightarrow> request \<Rightarrow> string \<Rightarrow> song" where
  "newSong e r path =
     \<lparr>oid = fresh_id e, song_image = path, title = req_body r ''title'',
      purchaseLink = req_body r ''purchaseLink'', streamLink = req_body r ''streamLink''\<rparr>"

definition postMusic :: "env \<Rightarrow> request \<Rightarrow> world \<Rightarrow> response \<times> world" where
  "postMusic e r w =
     (case cloudinarySingle e ''music'' r w of
        None \<Rightarrow> (Response 500 ErrorPage, w)
      | Some (file, w1) \<Rightarrow>
          (case file of
             None \<Rightarrow> (Response 400 (Message ''No image uploaded''), w1)
           | Some path \<Rightarrow>
               (case saveSong e (newSong e r path) w1 of
                  None \<Rightarrow> (Response 500 (ErrorMsg ''Error uploading song''), w1)
                | Some w2 \<Rightarrow>
                    (Response 201
                       (MessageSong ''Song added successfully'' (SongDoc (newSong e r path))),
                     w2))))"

definition postAlbum :: "env \<Rightarrow> request \<Rightarrow> world \<Rightarrow> response \<times> world" where
  "postAlbum e r w =
     (case cloudinarySingle e ''album'' r w of
        None \<Rightarrow> (Response 500 ErrorPage, w)
      | Some (file, w1) \<Rightarrow>
          (case file of
             None \<Rightarrow> (Response 400 (Message ''No image uploaded''), w1)
           | Some path \<Rightarrow>
               (case saveAlbum e (newSong e r path) w1 of
                  None \<Rightarrow> (Response 500 (ErrorMsg ''Error uploading song''), w1)
                | Some w2 \<Rightarrow>
                    (Response 201
                       (MessageSong ''Album added successfully'' (SongDoc (newSong e r path))),
                     w2))))"

definition postFeature :: "env \<Rightarrow> request \<Rightarrow> world \<Rightarrow> response \<times> world" where
  "postFeature e r w =
     (case cloudinarySingle e ''feature'' r w of
        None \<Rightarrow> (Response 500 ErrorPage, w)
      | Some (file, w1) \<Rightarrow>
          (case file of
             None \<Rightarrow> (Response 400 (Message ''No image uploaded''), w1)
           | Some path \<Rightarrow>
               (case saveFeature e (newSong e r path) w1 of
                  None \<Rightarrow> (Response 500 (ErrorMsg ''Error uploading Features''), w1)
                | Some w2 \<Rightarrow>
                    (Response 201
                       (MessageSong ''Features added successfully'' (SongDoc (newSong e r path))),
                     w2))))"

section \<open>The GET handlers\<close>

text \<open>
  The GET handlers only query the store: a handler of this section gives a response and
  leaves the world as it is. A rejected query is caught and answered 500, except in
  \<^verbatim>\<open>GET /api/blogs\<close> of \<^verbatim>\<open>part_001\<close>, which has no \<^verbatim>\<open>try\<close>.
\<close>

definition getRoot :: response where
  "getRoot = Response 200 (Text ''Hello, World!'')"

definition getCarousel :: "env \<Rightarrow> world \<Rightarrow> response" where
  "getCarousel e w =
     (if find_up e then Response 200 (Docs (map ImageDoc (carousel w)))
      else Response 500 (ErrorMsg ''Error fetching images''))"

definition getBlogs :: "env \<Rightarrow> world \<Rightarrow> response" where
  "getBlogs e w =
     (if find_up e then Response 200 (Docs (map BlogDoc (blogs w)))
      else Response 500 (ErrorMsg ''Error fetching blogs''))"

definition getBlogs_001 :: "env \<Rightarrow> world \<Rightarrow> response" where
  "getBlogs_001 e w =
     (if find_up e then Response 200 (Docs (map BlogDoc (blogs w))) else Unhandled)"

text \<open>
  \<^verbatim>\<open>GET /api/blogs/:blog_id\<close>, the same in all four variants (server.js, lines 150--160).
  \<^verbatim>\<open>Blog.findOne({ blog_id: req.params.blog_id })\<close> casts the route parameter to the
  schema type of \<^verbatim>\<open>blog_id\<close>, a Number, before the query is sent: a failed cast rejects
  the query with a CastError, which the \<^verbatim>\<open>catch\<close> answers with 500. Otherwise the store
  answers with the first blog whose \<^verbatim>\<open>blog_id\<close> equals the number, or with null.
\<close>

definition findOneBlog :: "cast_number \<Rightarrow> blog list \<Rightarrow> blog option" where
  "findOneBlog n bs = find (\<lambda>b. n = Integer (blog_id b)) bs"

definition getBlogById :: "runtime \<Rightarrow> env \<Rightarrow> string \<Rightarrow> world \<Rightarrow> response" where
  "getBlogById L e blog_id_param w =
     (case castNumber L blog_id_param of
        NotANumber \<Rightarrow> Response 500 (ErrorMsg ''Server error'')
      | n \<Rightarrow>
          if \<not> find_up e then Response 500 (ErrorMsg ''Server error'')
          else
            (case findOneBlog n (blogs w) of
               None \<Rightarrow> Response 404 (Message ''Blog not found'')
             | Some blog \<Rightarrow> Response 200 (Doc (BlogDoc blog))))"

text \<open>\<^verbatim>\<open>GET /api/events\<close> of server.js, and of \<^verbatim>\<open>part_001\<close> and \<^verbatim>\<open>part_002\<close>.\<close>

definition getEvents :: "env \<Rightarrow> world \<Rightarrow> response" where
  "getEvents e w =
     (if find_up e then Response 200 (Docs (map EventDoc (events w)))
      else Response 500 (ErrorMsg ''Error fetching events''))"

definition getEventImages :: "env \<Rightarrow> world \<Rightarrow> response" where
  "getEventImages e w =
     (if find_up e then Response 200 (Docs (map EventImageDoc (eventImages w)))
      else Response 500 (ErrorMsg ''Error fetching images''))"

text \<open>\<^verbatim>\<open>GET /api/events/:event_id\<close>, server.js, lines 209--219: \<^verbatim>\<open>Event.findById\<close>.\<close>

definition getEventById :: "runtime \<Rightarrow> env \<Rightarrow> string \<Rightarrow> world \<Rightarrow> response" where
  "getEventById L e event_id w =
     (case castObjectId L event_id of
        None \<Rightarrow> Response 500 (ErrorMsg ''Server error'')
      | Some i \<Rightarrow>
          if \<not> find_up e then Response 500 (ErrorMsg ''Server error'')
          else
            (case find (\<lambda>ev. oid ev = i) (events w) of
               None \<Rightarrow> Response 404 (Message ''Event not found'')
             | Some ev \<Rightarrow> Response 200 (Doc (EventDoc ev))))"

definition getMusic :: "env \<Rightarrow> world \<Rightarrow> response" where
  "getMusic e w =
     (if find_up e then Response 200 (Docs (map SongDoc (songs w)))
      else Response 500 (ErrorMsg ''Error fetching songs''))"

definition getAlbum :: "env \<Rightarrow> world \<Rightarrow> response" where
  "getAlbum e w =
     (if find_up e then Response 200 (Docs (map SongDoc (albums w)))
      else Response 500 (ErrorMsg ''Error fetching songs''))"

definition getFeature :: "env \<Rightarrow> world \<Rightarrow> response" where
  "getFeature e w =
     (if find_up e then Response 200 (Docs (map SongDoc (features w)))
      else Response 500 (ErrorMsg ''Error fetching songs''))"

section \<open>The system\<close>

text \<open>The POST endpoints of the four variants, and the dispatch to their handlers.\<close>

datatype endpoint =
    PostCarousel | PostCarousel_000 | PostCarousel_002
  | PostBlogs | PostBlogs_000 | PostBlogs_001
  | PostEvents | PostUpload_001 | PostUpload_002
  | PostMusic | PostAlbum | PostFeature

fun handlePost :: "runtime \<Rightarrow> endpoint \<Rightarrow> env \<Rightarrow> request \<Rightarrow> world \<Rightarrow> response \<times> world" where
  "handlePost L PostCarousel e r w = postCarousel e r w"
| "handlePost L PostCarousel_000 e r w = postCarousel_000 e r w"
| "handlePost L PostCarousel_002 e r w = postCarousel_002 e r w"
| "handlePost L PostBlogs e r w = postBlogs e r w"
| "handlePost L PostBlogs_000 e r w = postBlogs_000 e r w"
| "handlePost L PostBlogs_001 e r w = postBlogs_001 e r w"
| "handlePost L PostEvents e r w = postEvents L e r w"
| "handlePost L PostUpload_001 e r w = postUpload_001 L e r w"
| "handlePost L PostUpload_002 e r w = postUpload_002 L e r w"
| "handlePost L PostMusic e r w = postMusic e r w"
| "handlePost L PostAlbum e r w = postAlbum e r w"
| "handlePost L PostFeature e r w = postFeature e r w"

datatype query =
    GetRoot | GetCarousel | GetBlogs | GetBlogs_001 | GetBlogById string
  | GetEvents | GetEventImages | GetEventById string
  | GetMusic | GetAlbum | GetFeature

fun handleGet :: "runtime \<Rightarrow> query \<Rightarrow> env \<Rightarrow> world \<Rightarrow> response" where
  "handleGet L GetRoot e w = getRoot"
| "handleGet L GetCarousel e w = getCarousel e w"
| "handleGet L GetBlogs e w = getBlogs e w"
| "handleGet L GetBlogs_001 e w = getBlogs_001 e w"
| "handleGet L (GetBlogById p) e w = getBlogById L e p w"
| "handleGet L GetEvents e w = getEvents e w"
| "handleGet L GetEventImages e w = getEventImages e w"
| "handleGet L (GetEventById p) e w = getEventById L e p w"
| "handleGet L GetMusic e w = getMusic e w"
| "handleGet L GetAlbum e w = getAlbum e w"
| "handleGet L GetFeature e w = getFeature e w"

text \<open>
  An operation of the system is one request to one endpoint, together with what the
  collaborators do while it is served. These are all the operations: no variant has an
  endpoint that updates or deletes.
\<close>

datatype operation = Post endpoint env request | Get query env

fun exec :: "runtime \<Rightarrow> operation \<Rightarrow> world \<Rightarrow> response \<times> world" where
  "exec L (Post ep e r) w = handlePost L ep e r w"
| "exec L (Get q e) w = (handleGet L q e w, w)"

fun runOps :: "runtime \<Rightarrow> operation list \<Rightarrow> world \<Rightarrow> world" where
  "runOps L [] w = w"
| "runOps L (op # ops) w = runOps L ops (snd (exec L op w))"

text \<open>The worlds the system reaches from empty stores.\<close>

inductive reachable :: "runtime \<Rightarrow> world \<Rightarrow> bool" for L :: runtime where
  reachable_empty: "reachable L emptyWorld"
| reachable_exec: "reachable L w \<Longrightarrow> reachable L (snd (exec L op w))"

section \<open>Vocabulary of the properties\<close>

text \<open>
  Two behaviours of the collaborators for the worked examples: all of them work and the
  Blob Store answers with the given URL; and a Blob Store that fails every upload.
\<close>

definition working :: "string \<Rightarrow> nat \<Rightarrow> env" where
  "working url i =
     \<lparr>cloud = Some url, counter_up = True, save_up = True, find_up = True, fresh_id = i\<rparr>"

definition failingBlobStore :: env where
  "failingBlobStore =
     \<lparr>cloud = None, counter_up = True, save_up = True, find_up = True, fresh_id = 0\<rparr>"

text \<open>
  The folder a route's storage engine uploads to before the handler runs; \<open>None\<close> for the
  routes that keep the file in memory and upload from the handler.
\<close>

fun storageEngine :: "endpoint \<Rightarrow> string option" where
  "storageEngine PostCarousel = None"
| "storageEngine PostCarousel_000 = None"
| "storageEngine PostCarousel_002 = None"
| "storageEngine PostUpload_002 = None"
| "storageEngine PostMusic = Some ''music''"
| "storageEngine PostAlbum = Some ''album''"
| "storageEngine PostFeature = Some ''feature''"
| "storageEngine _ = Some ''uploads''"

text \<open>Whether the handler tests \<^verbatim>\<open>!req.file\<close>, and the text field it tests, if any.\<close>

fun checksFile :: "endpoint \<Rightarrow> bool" where
  "checksFile PostBlogs_001 = False"
| "checksFile PostUpload_001 = False"
| "checksFile _ = True"

fun checkedField :: "endpoint \<Rightarrow> string option" where
  "checkedField PostCarousel_002 = Some ''link''"
| "checkedField PostEvents = Some ''event_date''"
| "checkedField PostUpload_001 = Some ''date''"
| "checkedField PostUpload_002 = Some ''date''"
| "checkedField _ = None"

text \<open>The handler's own checks refuse the request.\<close>

definition rejects :: "endpoint \<Rightarrow> request \<Rightarrow> bool" where
  "rejects ep r =
     ((checksFile ep \<and> req_file r = None)
      \<or> (case checkedField ep of None \<Rightarrow> False | Some f \<Rightarrow> falsy (req_body r f)))"

text \<open>
  The request is one whose file the route sends to the Blob Store: it has a file part and,
  where the handler uploads, passes the handler's checks.
\<close>

definition uploadAttempted :: "endpoint \<Rightarrow> request \<Rightarrow> bool" where
  "uploadAttempted ep r =
     (req_file r \<noteq> None \<and> (storageEngine ep \<noteq> None \<or> \<not> rejects ep r))"

text \<open>Every Record the Document Store holds (the counters are not Records).\<close>

definition records :: "world \<Rightarrow> doc list" where
  "records w =
     map BlogDoc (blogs w) @ map ImageDoc (carousel w) @ map EventDoc (events w)
     @ map EventImageDoc (eventImages w) @ map SongDoc (songs w) @ map SongDoc (albums w)
     @ map SongDoc (features w)"

text \<open>
  The answer of each endpoint to a request that created the Record \<open>d\<close>: the carousel
  answers with status 200, the song, album and feature routes wrap the Record.
\<close>

fun created :: "endpoint \<Rightarrow> doc \<Rightarrow> response" where
  "created PostCarousel d = Response 200 (Doc d)"
| "created PostCarousel_000 d = Response 200 (Doc d)"
| "created PostCarousel_002 d = Response 200 (Doc d)"
| "created PostMusic d = Response 201 (MessageSong ''Song added successfully'' d)"
| "created PostAlbum d = Response 201 (MessageSong ''Album added successfully'' d)"
| "created PostFeature d = Response 201 (MessageSong ''Features added successfully'' d)"
| "created _ d = Response 201 (Doc d)"

text \<open>
  The invariant that ties the blogs to their counter: while the counter \<^verbatim>\<open>blog_id\<close> has
  no document, no blog is stored.
\<close>

definition freshCounterNoBlogs :: "world \<Rightarrow> bool" where
  "freshCounterNoBlogs w = (counters w ''blog_id'' = None \<longrightarrow> blogs w = [])"

section \<open>Properties of the allocator\<close>

declare ulp.simps [simp del]

lemma ulp_small: "a < 2 ^ 53 \<Longrightarrow> ulp a = 1"
  by (simp add: ulp.simps)

lemma ulp_at_limit: "ulp 9007199254740992 = 2"
  by (simp add: ulp.simps [of 9007199254740992] ulp_small)


lemma toNumber_exact: "\<bar>n\<bar> \<le> 2 ^ 53 \<Longrightarrow> toNumber n = n"
proof (cases "\<bar>n\<bar> < 2 ^ 53")
  case True
  then show ?thesis
    by (simp add: toNumber_def ulp_small Let_def mult_sgn_abs)
next
  case False
  assume "\<bar>n\<bar> \<le> 2 ^ 53"
  with False have "\<bar>n\<bar> = 9007199254740992" by simp
  then show ?thesis
    by (auto simp: toNumber_def ulp_at_limit Let_def abs_if sgn_if split: if_splits)
qed

lemma toNumber_1: "toNumber 1 = 1"
  by (simp add: toNumber_exact)



lemma getNextSequenceValue_eq:
  "getNextSequenceValue name cs =
     (toNumber (counterValue cs name + 1), cs(name \<mapsto> counterValue cs name + 1))"
  by (simp add: getNextSequenceValue_def findOneAndUpdate_inc_def counterValue_def
      split: option.split)

lemma counterValue_upd_same: "counterValue (cs(name \<mapsto> v)) name = v"
  by (simp add: counterValue_def)

lemma counterValue_upd_other: "a \<noteq> b \<Longrightarrow> counterValue (cs(a \<mapsto> v)) b = counterValue cs b"
  by (simp add: counterValue_def)

lemma nextValues_other:
  "a \<noteq> b \<Longrightarrow> snd (nextValues n a cs) b = cs b"
  by (induction n arbitrary: cs) (simp_all add: getNextSequenceValue_eq case_prod_beta)



lemma nextValues_counter:
  "counterValue (snd (nextValues n name cs)) name = counterValue cs name + int n"
  by (induction n arbitrary: cs)
     (simp_all add: getNextSequenceValue_eq case_prod_beta counterValue_upd_same)




text \<open>
  C5. Counters with distinct names are independent: after any number \<open>n\<close> of calls for
  \<open>a\<close>, the document of a different name \<open>b\<close> is what it was (also when it is absent),
  and so the next call for \<open>b\<close> returns what it would have returned before.
\<close>

theorem counters_independent:
  "a \<noteq> b \<Longrightarrow>
     snd (nextValues n a cs) b = cs b
   \<and> counterValue (snd (nextValues n a cs)) b = counterValue cs b
   \<and> fst (getNextSequenceValue b (snd (nextValues n a cs))) = fst (getNextSequenceValue b cs)"
  by (simp add: nextValues_other getNextSequenceValue_eq counterValue_def)

theorem counters_independent_witness:
  "''a'' \<noteq> ''b''
   \<and> snd (nextValues 5 ''a'' [''b'' \<mapsto> 7]) ''b'' = Some 7
   \<and> fst (getNextSequenceValue ''b'' (snd (nextValues 5 ''a'' [''b'' \<mapsto> 7]))) = 8"
  using counters_independent [of "''a''" "''b''" 5 "[''b'' \<mapsto> 7]"]
  by (simp add: getNextSequenceValue_eq counterValue_def toNumber_exact)


subsection \<open>Concurrent callers\<close>















text \<open>The two steps of one call, run without interruption, are \<open>getNextSequenceValue\<close>.\<close>

lemma stepCall_twice:
  "pool c = Pending \<Longrightarrow>
     stepCall x c (stepCall x c (cs, pool))
       = (snd (getNextSequenceValue x cs), pool(c := Returned (fst (getNextSequenceValue x cs))))"
  by (simp add: stepCall_def case_prod_beta)




section \<open>Fetching one blog\<close>

lemma findOneBlog_None:
  "findOneBlog n bs = None \<longleftrightarrow> (\<forall>b\<in>set bs. n \<noteq> Integer (blog_id b))"
  by (auto simp: findOneBlog_def find_None_iff)

text \<open>
  C10. A request to \<^verbatim>\<open>GET /api/blogs/:blog_id\<close> whose identifier does not cast to a number
  is answered with status 500 and the JSON error \<^verbatim>\<open>{ error: "Server error" }\<close>, whatever the
  store holds, and not with the 404 of a blog that is not found.
\<close>

theorem blog_by_non_numeric_id:
  "castNumber L p = NotANumber \<Longrightarrow>
     getBlogById L e p w = Response 500 (ErrorMsg ''Server error'')
   \<and> getBlogById L e p w \<noteq> Response 404 (Message ''Blog not found'')
   \<and> handleGet L (GetBlogById p) e w = Response 500 (ErrorMsg ''Server error'')"
  by (simp add: getBlogById_def)

theorem blog_by_non_numeric_id_witness:
  "castNumber exampleRuntime ''abc'' = NotANumber
   \<and> getBlogById exampleRuntime (working ''u'' 0) ''abc'' emptyWorld
       = Response 500 (ErrorMsg ''Server error'')"
  using blog_by_non_numeric_id [of exampleRuntime "''abc''" "working ''u'' 0" emptyWorld]
  by (simp add: exampleRuntime_def)

text \<open>
  C7, as stated, fails: the identifier \<^verbatim>\<open>abc\<close> matches no blog of the empty store, and the
  answer is 500, not 404.
\<close>

theorem blog_not_found_counterexample:
  "blogs emptyWorld = []
   \<and> getBlogById exampleRuntime (working ''u'' 0) ''abc'' emptyWorld
       = Response 500 (ErrorMsg ''Server error'')
   \<and> getBlogById exampleRuntime (working ''u'' 0) ''abc'' emptyWorld
       \<noteq> Response 404 (Message ''Blog not found'')"
  by (simp add: getBlogById_def exampleRuntime_def emptyWorld_def)

text \<open>
  C7, amended. For every identifier that casts to a number equal to the \<^verbatim>\<open>blog_id\<close> of no
  persisted blog, \<^verbatim>\<open>GET /api/blogs/:blog_id\<close> answers 404 with the JSON message
  \<^verbatim>\<open>{ message: "Blog not found" }\<close> when the store answers the query; an identifier that
  does not cast to a number, or a store that does not answer, gives a caught 500. In no
  case is an error left unhandled.
\<close>

theorem blog_not_found:
  "(castNumber L p \<noteq> NotANumber \<and> find_up e
      \<and> (\<forall>b \<in> set (blogs w). castNumber L p \<noteq> Integer (blog_id b))
     \<longrightarrow> getBlogById L e p w = Response 404 (Message ''Blog not found''))
   \<and> (castNumber L p = NotANumber \<or> \<not> find_up e
     \<longrightarrow> getBlogById L e p w = Response 500 (ErrorMsg ''Server error''))
   \<and> getBlogById L e p w \<noteq> Unhandled"
  using findOneBlog_None [of "castNumber L p" "blogs w"]
  by (cases "castNumber L p") (auto simp: getBlogById_def split: option.split)

theorem blog_not_found_witness:
  "castNumber exampleRuntime ''7'' \<noteq> NotANumber
   \<and> find_up (working ''u'' 0)
   \<and> getBlogById exampleRuntime (working ''u'' 0) ''7''
         (emptyWorld\<lparr>counters := [''blog_id'' \<mapsto> 1],
            blogs := [\<lparr>oid = 0, blog_id = 1, blog_title = Some ''T'',
                       blog_description = None, blog_image = ''https://x/y.jpg''\<rparr>]\<rparr>)
       = Response 404 (Message ''Blog not found'')"
  using blog_not_found [of exampleRuntime "''7''" "working ''u'' 0"
      "emptyWorld\<lparr>counters := [''blog_id'' \<mapsto> 1],
         blogs := [\<lparr>oid = 0, blog_id = 1, blog_title = Some ''T'',
                    blog_description = None, blog_image = ''https://x/y.jpg''\<rparr>]\<rparr>"]
  by (simp add: exampleRuntime_def working_def emptyWorld_def)

section \<open>Creating Records\<close>

lemmas post_defs =
  postCarousel_def postCarousel_000_def postCarousel_002_def postBlogs_def postBlogs_000_def
  postBlogs_001_def postEvents_def postUpload_001_def postUpload_002_def postMusic_def
  postAlbum_def postFeature_def

lemmas store_defs =
  cloudinarySingle_def upload_stream_def saveBlog_def saveCarouselImage_def saveEvent_def
  saveImage_001_def saveEventImage_def saveSong_def saveAlbum_def saveFeature_def

lemma upload_stream_fails: "cloud e = None \<Longrightarrow> upload_stream e folder w = None"
  by (simp add: upload_stream_def)

lemma cloudinarySingle_fails:
  "cloud e = None \<Longrightarrow>
     cloudinarySingle e folder r w = (case req_file r of None \<Rightarrow> Some (None, w) | Some b \<Rightarrow> None)"
  by (simp add: cloudinarySingle_def upload_stream_def split: option.split)

text \<open>
  C4. On every POST endpoint, a request whose file the route sends to the Blob Store, with
  the Blob Store failing the upload, is answered with status 500, and the world after it is
  the world before: no Record is persisted and no sequence value is consumed. (With a Blob
  Store that fails every upload no request at all changes the world.) The blog routes
  allocate the \<^verbatim>\<open>blog_id\<close> only after the storage engine has uploaded the file.
\<close>

theorem upload_failure:
  "cloud e = None \<Longrightarrow>
     snd (handlePost L ep e r w) = w
   \<and> (uploadAttempted ep r \<longrightarrow> (\<exists>b. handlePost L ep e r w = (Response 500 b, w)))"
  by (cases ep)
     (auto simp: post_defs upload_stream_fails cloudinarySingle_fails uploadAttempted_def
        rejects_def falsy_def split: option.split)


theorem upload_failure_witness:
  "cloud failingBlobStore = None
   \<and> uploadAttempted PostBlogs \<lparr>req_file = Some ''bytes'', req_body = [''blog_title'' \<mapsto> ''T'']\<rparr>
   \<and> handlePost exampleRuntime PostBlogs failingBlobStore
         \<lparr>req_file = Some ''bytes'', req_body = [''blog_title'' \<mapsto> ''T'']\<rparr> emptyWorld
       = (Response 500 ErrorPage, emptyWorld)
   \<and> uploadAttempted PostCarousel \<lparr>req_file = Some ''bytes'', req_body = Map.empty\<rparr>
   \<and> handlePost exampleRuntime PostCarousel failingBlobStore
         \<lparr>req_file = Some ''bytes'', req_body = Map.empty\<rparr> emptyWorld
       = (Response 500 (Message ''Upload failed''), emptyWorld)"
  using upload_failure [of failingBlobStore exampleRuntime PostBlogs
      "\<lparr>req_file = Some ''bytes'', req_body = [''blog_title'' \<mapsto> ''T'']\<rparr>" emptyWorld]
    upload_failure [of failingBlobStore exampleRuntime PostCarousel
      "\<lparr>req_file = Some ''bytes'', req_body = Map.empty\<rparr>" emptyWorld]
  by (simp add: failingBlobStore_def uploadAttempted_def rejects_def postBlogs_def
      postCarousel_def cloudinarySingle_def upload_stream_def)

text \<open>
  C6, as stated, fails: \<^verbatim>\<open>POST /api/events\<close> of server.js with a file part and no
  \<^verbatim>\<open>event_date\<close> is answered 400, but the storage engine has uploaded the file before the
  handler ran, and the Blob Store holds it afterwards.
\<close>

theorem validation_failure_counterexample:
  "rejects PostEvents \<lparr>req_file = Some ''bytes'', req_body = Map.empty\<rparr>
   \<and> handlePost exampleRuntime PostEvents (working ''https://x/y.jpg'' 0)
         \<lparr>req_file = Some ''bytes'', req_body = Map.empty\<rparr> emptyWorld
       = (Response 400 (Message ''Event date is required''),
          emptyWorld\<lparr>blobs := [(''uploads'', ''https://x/y.jpg'')]\<rparr>)
   \<and> emptyWorld\<lparr>blobs := [(''uploads'', ''https://x/y.jpg'')]\<rparr> \<noteq> emptyWorld"
  by (simp add: postEvents_def cloudinarySingle_def upload_stream_def rejects_def falsy_def
      working_def emptyWorld_def)

text \<open>
  C6, amended. On every POST endpoint, a request that lacks the file part or the text field
  which the handler checks, and which reaches the handler (on a route with a storage engine
  the upload of a file it carries succeeds), is answered with status 400 and a JSON body
  \<^verbatim>\<open>{ message }\<close> or \<^verbatim>\<open>{ error }\<close>; no Record is persisted and no sequence value is
  consumed. Nothing is uploaded when the request has no file part or the route keeps the
  file in memory; on a route with a storage engine the file of a request that has one has
  been uploaded before the handler answers.
\<close>

theorem validation_failure:
  assumes "rejects ep r"
    and "req_file r \<noteq> None \<and> storageEngine ep \<noteq> None \<longrightarrow> cloud e \<noteq> None"
  shows "(\<exists>m. fst (handlePost L ep e r w) = Response 400 (Message m)
            \<or> fst (handlePost L ep e r w) = Response 400 (ErrorMsg m))
       \<and> counters (snd (handlePost L ep e r w)) = counters w
       \<and> records (snd (handlePost L ep e r w)) = records w
       \<and> (req_file r = None \<or> storageEngine ep = None \<longrightarrow> snd (handlePost L ep e r w) = w)
       \<and> (\<forall>folder url. req_file r \<noteq> None \<and> storageEngine ep = Some folder \<and> cloud e = Some url
            \<longrightarrow> snd (handlePost L ep e r w) = w\<lparr>blobs := blobs w @ [(folder, url)]\<rparr>)"
  using assms
  by (cases ep)
     (auto simp: post_defs cloudinarySingle_def upload_stream_def rejects_def falsy_def
        records_def split: option.split)

theorem validation_failure_witness:
  "rejects PostCarousel_002 \<lparr>req_file = Some ''bytes'', req_body = Map.empty\<rparr>
   \<and> handlePost exampleRuntime PostCarousel_002 (working ''https://x/y.jpg'' 0)
         \<lparr>req_file = Some ''bytes'', req_body = Map.empty\<rparr> emptyWorld
       = (Response 400 (Message ''No link provided''), emptyWorld)
   \<and> rejects PostEvents \<lparr>req_file = Some ''bytes'', req_body = Map.empty\<rparr>
   \<and> snd (handlePost exampleRuntime PostEvents (working ''https://x/y.jpg'' 0)
         \<lparr>req_file = Some ''bytes'', req_body = Map.empty\<rparr> emptyWorld)
       = emptyWorld\<lparr>blobs := [(''uploads'', ''https://x/y.jpg'')]\<rparr>"
  using validation_failure [of PostCarousel_002 "\<lparr>req_file = Some ''bytes'', req_body = Map.empty\<rparr>"
      "working ''https://x/y.jpg'' 0" exampleRuntime emptyWorld]
    validation_failure [of PostEvents "\<lparr>req_file = Some ''bytes'', req_body = Map.empty\<rparr>"
      "working ''https://x/y.jpg'' 0" exampleRuntime emptyWorld]
  by (simp add: postCarousel_002_def rejects_def falsy_def working_def emptyWorld_def)

subsection \<open>Requests that no check of the handler covers\<close>

text \<open>
  \<^verbatim>\<open>POST /api/blogs\<close> of \<^verbatim>\<open>part_001\<close> without a file part: the TypeError is thrown outside
  any \<^verbatim>\<open>try\<close>, and the handler writes no response. \<^verbatim>\<open>POST /api/upload\<close> of \<^verbatim>\<open>part_001\<close>
  with a date and without a file part: the TypeError is caught, status 500. The song route
  without a title: the file has been uploaded, the validation in \<^verbatim>\<open>save()\<close> fails, status
  500.
\<close>

lemma postBlogs_001_without_file:
  "req_file r = None \<Longrightarrow> postBlogs_001 e r w = (Unhandled, w)"
  by (simp add: postBlogs_001_def cloudinarySingle_def)

lemma postUpload_001_without_file:
  "req_file r = None \<Longrightarrow> \<not> falsy (req_body r ''date'') \<Longrightarrow>
     postUpload_001 L e r w = (Response 500 (ErrorMsg ''Error uploading image''), w)"
  by (auto simp: postUpload_001_def cloudinarySingle_def falsy_def split: option.split)

lemma postMusic_without_title:
  "req_file r \<noteq> None \<Longrightarrow> cloud e = Some url \<Longrightarrow> falsy (req_body r ''title'') \<Longrightarrow>
     postMusic e r w
       = (Response 500 (ErrorMsg ''Error uploading song''), w\<lparr>blobs := blobs w @ [(''music'', url)]\<rparr>)"
  by (auto simp: postMusic_def cloudinarySingle_def upload_stream_def saveSong_def validSong_def
      newSong_def required_def falsy_def split: option.split)

text \<open>
  C9, as stated, fails: a successful \<^verbatim>\<open>POST /api/carousel\<close> answers with the created Record
  and status 200, not 201.
\<close>

theorem created_record_counterexample:
  "records emptyWorld = []
   \<and> handlePost exampleRuntime PostCarousel (working ''https://x/y.jpg'' 0)
     \<lparr>req_file = Some ''bytes'', req_body = [''link'' \<mapsto> ''https://l'']\<rparr> emptyWorld
   = (Response 200
        (Doc (ImageDoc \<lparr>oid = 0, imageUrl = ''https://x/y.jpg'', link = Some ''https://l''\<rparr>)),
      emptyWorld
        \<lparr>carousel := [\<lparr>oid = 0, imageUrl = ''https://x/y.jpg'', link = Some ''https://l''\<rparr>],
         blobs := [(''carousel'', ''https://x/y.jpg'')]\<rparr>)"
  by (simp add: postCarousel_def upload_stream_def saveCarouselImage_def working_def
      emptyWorld_def records_def Let_def)

text \<open>
  C9, amended. On every POST endpoint, a request that persists a Record persists exactly
  one and is answered with it: the blog, event and upload routes with the Record as JSON
  and status 201, the carousel routes with the Record as JSON and status 200, and the song,
  album and feature routes with status 201 and the JSON object
  \<^verbatim>\<open>{ message, song: Record }\<close>.
\<close>

theorem created_record:
  assumes "handlePost L ep e r w = (res, w')" and "records w' \<noteq> records w"
  shows "\<exists>d. mset (records w') = add_mset d (mset (records w)) \<and> res = created ep d"
  using assms
  by (cases ep)
     (auto simp: post_defs store_defs records_def Let_def getNextSequenceValue_eq
        split: option.splits if_splits)


theorem created_record_witness:
  "records (snd (handlePost exampleRuntime PostEvents (working ''https://x/y.jpg'' 3)
       \<lparr>req_file = Some ''bytes'', req_body = [''event_date'' \<mapsto> ''2025-01-01'']\<rparr> emptyWorld))
     \<noteq> records emptyWorld
   \<and> fst (handlePost exampleRuntime PostEvents (working ''https://x/y.jpg'' 3)
       \<lparr>req_file = Some ''bytes'', req_body = [''event_date'' \<mapsto> ''2025-01-01'']\<rparr> emptyWorld)
     = Response 201 (Doc (EventDoc \<lparr>oid = 3, event_date = Some 1735689600000,
                                     event_image = ''https://x/y.jpg''\<rparr>))"
  using created_record [OF surjective_pairing,
      of exampleRuntime PostEvents "working ''https://x/y.jpg'' 3"
        "\<lparr>req_file = Some ''bytes'', req_body = [''event_date'' \<mapsto> ''2025-01-01'']\<rparr>" emptyWorld]
  by (simp add: postEvents_def cloudinarySingle_def upload_stream_def saveEvent_def
      working_def emptyWorld_def exampleRuntime_def records_def Let_def)

section \<open>The counter across the operations of the system\<close>

lemma handlePost_blogs:
  "(counters (snd (handlePost L ep e r w)) = counters w
      \<and> blogs (snd (handlePost L ep e r w)) = blogs w)
   \<or> counters (snd (handlePost L ep e r w))
        = (counters w)(''blog_id'' \<mapsto> counterValue (counters w) ''blog_id'' + 1)"
  by (cases ep)
     (auto simp: post_defs store_defs Let_def getNextSequenceValue_eq
        split: option.splits if_splits)

lemma handlePost_counters:
  "counters (snd (handlePost L ep e r w)) = counters w
   \<or> counters (snd (handlePost L ep e r w))
       = (counters w)(''blog_id'' \<mapsto> counterValue (counters w) ''blog_id'' + 1)"
  using handlePost_blogs [of L ep e r w] by blast

lemma exec_counters:
  "counters (snd (exec L op w)) = counters w
   \<or> counters (snd (exec L op w))
       = (counters w)(''blog_id'' \<mapsto> counterValue (counters w) ''blog_id'' + 1)"
  by (cases op) (simp_all add: handlePost_counters)

lemma exec_counter_mono:
  "counterValue (counters w) name \<le> counterValue (counters (snd (exec L op w))) name"
  using exec_counters [of L op w]
  by (auto simp: counterValue_def)

lemma exec_counter_kept:
  "counters w name \<noteq> None \<Longrightarrow> counters (snd (exec L op w)) name \<noteq> None"
  using exec_counters [of L op w] by auto

lemma runOps_counter_mono:
  "counterValue (counters w) name \<le> counterValue (counters (runOps L ops w)) name"
proof (induction ops arbitrary: w)
  case Nil
  show ?case by simp
next
  case (Cons op ops)
  have "counterValue (counters w) name \<le> counterValue (counters (snd (exec L op w))) name"
    by (rule exec_counter_mono)
  also have "\<dots> \<le> counterValue (counters (runOps L ops (snd (exec L op w)))) name"
    by (rule Cons.IH)
  finally show ?case by simp
qed

lemma runOps_counter_kept:
  "counters w name \<noteq> None \<Longrightarrow> counters (runOps L ops w) name \<noteq> None"
proof (induction ops arbitrary: w)
  case Nil
  then show ?case by simp
next
  case (Cons op ops)
  from Cons.prems have "counters (snd (exec L op w)) name \<noteq> None"
    by (rule exec_counter_kept)
  then have "counters (runOps L ops (snd (exec L op w))) name \<noteq> None"
    by (rule Cons.IH)
  then show ?case by simp
qed

text \<open>
  C8. For every counter name, the stored value never decreases over any sequence of
  operations of the system, and a counter document that exists is never removed. When a
  blog route has allocated a \<^verbatim>\<open>blog_id\<close> and the insert of the blog then fails, no Record
  has been created, the counter stays incremented, and it stays at least that high after
  any further operations: the allocated value is consumed for good.
\<close>

theorem counter_never_decreases:
  "counterValue (counters w) name \<le> counterValue (counters (runOps L ops w)) name
   \<and> (counters w name \<noteq> None \<longrightarrow> counters (runOps L ops w) name \<noteq> None)
   \<and> (ep \<in> {PostBlogs, PostBlogs_000, PostBlogs_001}
        \<and> req_file r \<noteq> None \<and> cloud e \<noteq> None \<and> counter_up e \<and> \<not> save_up e
      \<longrightarrow> records (snd (handlePost L ep e r w)) = records w
        \<and> counterValue (counters (snd (handlePost L ep e r w))) ''blog_id''
            = counterValue (counters w) ''blog_id'' + 1
        \<and> counterValue (counters w) ''blog_id'' + 1
            \<le> counterValue (counters (runOps L ops (snd (handlePost L ep e r w)))) ''blog_id'')"
proof -
  have later: "counterValue (counters (snd (handlePost L ep e r w))) ''blog_id''
        \<le> counterValue (counters (runOps L ops (snd (handlePost L ep e r w)))) ''blog_id''"
    by (rule runOps_counter_mono)
  have failed: "ep \<in> {PostBlogs, PostBlogs_000, PostBlogs_001}
        \<and> req_file r \<noteq> None \<and> cloud e \<noteq> None \<and> counter_up e \<and> \<not> save_up e
      \<longrightarrow> records (snd (handlePost L ep e r w)) = records w
        \<and> counterValue (counters (snd (handlePost L ep e r w))) ''blog_id''
            = counterValue (counters w) ''blog_id'' + 1"
    by (auto simp: post_defs store_defs Let_def getNextSequenceValue_eq records_def
        counterValue_upd_same split: option.splits)
  from later failed show ?thesis
    using runOps_counter_mono [of w name L ops] runOps_counter_kept [of w name L ops]
    by auto
qed


theorem counter_never_decreases_witness:
  "fst (handlePost exampleRuntime PostBlogs ((working ''https://x/y.jpg'' 0)\<lparr>save_up := False\<rparr>)
         \<lparr>req_file = Some ''bytes'', req_body = Map.empty\<rparr> emptyWorld)
     = Response 500 (ErrorMsg ''Error uploading blog'')
   \<and> records (snd (handlePost exampleRuntime PostBlogs
         ((working ''https://x/y.jpg'' 0)\<lparr>save_up := False\<rparr>)
         \<lparr>req_file = Some ''bytes'', req_body = Map.empty\<rparr> emptyWorld)) = []
   \<and> counterValue (counters (snd (handlePost exampleRuntime PostBlogs
         ((working ''https://x/y.jpg'' 0)\<lparr>save_up := False\<rparr>)
         \<lparr>req_file = Some ''bytes'', req_body = Map.empty\<rparr> emptyWorld))) ''blog_id'' = 1
   \<and> counterValue (counters (runOps exampleRuntime
         [Get GetBlogs (working ''u'' 0),
          Post PostBlogs (working ''https://x/z.jpg'' 1)
            \<lparr>req_file = Some ''bytes'', req_body = Map.empty\<rparr>]
         (snd (handlePost exampleRuntime PostBlogs
           ((working ''https://x/y.jpg'' 0)\<lparr>save_up := False\<rparr>)
           \<lparr>req_file = Some ''bytes'', req_body = Map.empty\<rparr> emptyWorld)))) ''blog_id'' = 2"
  using counter_never_decreases [of emptyWorld "''blog_id''" exampleRuntime
      "[Get GetBlogs (working ''u'' 0),
        Post PostBlogs (working ''https://x/z.jpg'' 1)
          \<lparr>req_file = Some ''bytes'', req_body = Map.empty\<rparr>]"
      PostBlogs "\<lparr>req_file = Some ''bytes'', req_body = Map.empty\<rparr>"
      "(working ''https://x/y.jpg'' 0)\<lparr>save_up := False\<rparr>"]
  by (simp add: postBlogs_def cloudinarySingle_def upload_stream_def saveBlog_def
      getNextSequenceValue_eq counterValue_def working_def emptyWorld_def records_def Let_def)

lemma handlePost_freshCounterNoBlogs:
  "freshCounterNoBlogs w \<Longrightarrow> freshCounterNoBlogs (snd (handlePost L ep e r w))"
  using handlePost_blogs [of L ep e r w]
  by (auto simp: freshCounterNoBlogs_def)

lemma exec_freshCounterNoBlogs:
  "freshCounterNoBlogs w \<Longrightarrow> freshCounterNoBlogs (snd (exec L op w))"
  by (cases op) (simp_all add: handlePost_freshCounterNoBlogs)

lemma reachable_freshCounterNoBlogs: "reachable L w \<Longrightarrow> freshCounterNoBlogs w"
proof (induction rule: reachable.induct)
  case reachable_empty
  show ?case by (simp add: freshCounterNoBlogs_def emptyWorld_def)
next
  case (reachable_exec w op)
  then show ?case by (simp add: exec_freshCounterNoBlogs)
qed

lemma fresh_counter_no_blogs:
  assumes "reachable L w" and "counters w ''blog_id'' = None"
  shows "blogs w = []"
  using reachable_freshCounterNoBlogs [OF assms(1)] assms(2)
  by (simp add: freshCounterNoBlogs_def)

text \<open>
  C3. In every world the system reaches in which the counter \<^verbatim>\<open>blog_id\<close> is fresh, a
  request to a blog route with a file part that the Blob Store stores under the URL \<open>url\<close>,
  title \<open>T\<close> and description \<open>D\<close>, the Document Store performing the counter update and
  the insert, persists the blog with \<^verbatim>\<open>blog_id\<close> 1, title \<open>T\<close>, description \<open>D\<close> and image
  \<open>url\<close>, and the response is that Record with status 201.
\<close>

theorem create_blog:
  assumes "reachable L w" and "counters w ''blog_id'' = None"
    and "ep \<in> {PostBlogs, PostBlogs_000, PostBlogs_001}"
    and "req_file r \<noteq> None" and "cloud e = Some url"
    and "req_body r ''blog_title'' = Some T" and "req_body r ''blog_description'' = Some D"
    and "counter_up e" and "save_up e"
  shows "handlePost L ep e r w
       = (Response 201
            (Doc (BlogDoc \<lparr>oid = fresh_id e, blog_id = 1, blog_title = Some T,
                            blog_description = Some D, blog_image = url\<rparr>)),
          w\<lparr>counters := (counters w)(''blog_id'' \<mapsto> 1),
            blogs := blogs w @ [\<lparr>oid = fresh_id e, blog_id = 1, blog_title = Some T,
                                 blog_description = Some D, blog_image = url\<rparr>],
            blobs := blobs w @ [(''uploads'', url)]\<rparr>)"
  using assms(3-) fresh_counter_no_blogs [OF assms(1,2)] assms(2)
  by (auto simp: post_defs store_defs Let_def getNextSequenceValue_eq counterValue_def
      toNumber_1)

theorem create_blog_witness:
  "reachable exampleRuntime emptyWorld
   \<and> counters emptyWorld ''blog_id'' = None
   \<and> handlePost exampleRuntime PostBlogs (working ''https://x/y.jpg'' 0)
         \<lparr>req_file = Some ''bytes'',
          req_body = [''blog_title'' \<mapsto> ''T'', ''blog_description'' \<mapsto> ''D'']\<rparr> emptyWorld
       = (Response 201
            (Doc (BlogDoc \<lparr>oid = 0, blog_id = 1, blog_title = Some ''T'',
                            blog_description = Some ''D'', blog_image = ''https://x/y.jpg''\<rparr>)),
          emptyWorld\<lparr>counters := [''blog_id'' \<mapsto> 1],
            blogs := [\<lparr>oid = 0, blog_id = 1, blog_title = Some ''T'',
                       blog_description = Some ''D'', blog_image = ''https://x/y.jpg''\<rparr>],
            blobs := [(''uploads'', ''https://x/y.jpg'')]\<rparr>)"
  using create_blog [OF reachable_empty, of PostBlogs
      "\<lparr>req_file = Some ''bytes'',
        req_body = [''blog_title'' \<mapsto> ''T'', ''blog_description'' \<mapsto> ''D'']\<rparr>"
      "working ''https://x/y.jpg'' 0" "''https://x/y.jpg''" "''T''" "''D''" exampleRuntime]
    reachable_empty [of exampleRuntime]
  by (simp add: working_def emptyWorld_def)

end
